theory Spec2Isabelle
  imports Main
begin

section \<open>Data model of \<open>src/pages/Dashboard/index.tsx\<close>\<close>

text \<open>
  JavaScript strings are modelled as \<^typ>\<open>string\<close>: one list element per UTF-16 code
  unit, which is what \<open>.length\<close> and \<open>.substr\<close> count. Every literal of the component
  is in the Latin-1 range, so each of its code units fits one \<^typ>\<open>char\<close>; a code unit
  above U+007E is written \<open>CHR 0x..\<close>, as the no-break space U+00A0 is in the literal
  of lines 149, 162 and 175.

  The type parameter \<open>'d\<close> stands for the JavaScript \<open>Date\<close> of \<open>created_at\<close>.
  The field names \<open>id\<close>, \<open>value\<close>, \<open>type\<close> and \<open>total\<close> carry the suffix
  \<open>_field\<close>, and the title of a category is \<open>category_title\<close>.
\<close>

datatype TransactionType = Income | Outcome

record Category =
  category_title :: string

record 'd Transaction =
  id_field :: string
  title :: string
  value_field :: string
  formattedValue :: string
  formattedDate :: string
  type_field :: TransactionType
  category :: Category
  created_at :: 'd

text \<open>
  The balance starts as \<open>{} as Balance\<close>: an object none of whose fields is defined.
  A field is therefore \<open>None\<close> (JavaScript \<open>undefined\<close>) or \<open>Some\<close> string.
\<close>

record Balance =
  income :: "string option"
  outcome :: "string option"
  total_field :: "string option"

text \<open>The body of a successful \<open>GET /transactions\<close> response, \<open>response.data\<close>.\<close>

record 'd ResponseData =
  data_transactions :: "'d Transaction list"
  data_balance :: Balance
  data_totalTransactions :: int

text \<open>A rejected promise of the HTTP client.\<close>

datatype error = RequestFailed

text \<open>The calls made on the HTTP client, \<open>api.get(url)\<close> and \<open>api.delete(url)\<close>.\<close>

datatype request = GET string | DELETE string

text \<open>
  The \<open>useState\<close> cells of the component. \<open>limitPerPage\<close> is declared without a
  setter, \<open>const [limitPerPage] = useState(5)\<close>, so it is the constant below.
  \<open>editingTransaction\<close> starts as the empty object \<open>{} as Transaction\<close>, here \<open>None\<close>.
\<close>

record 'd Dashboard =
  transactions :: "'d Transaction list"
  balance :: Balance
  currentPage :: int
  modalIsOpen :: bool
  editingTransaction :: "'d Transaction option"
  totalTransactions :: int
  loadingCards :: bool

text \<open>
  The component together with what it does to the outside: the HTTP calls it has issued,
  in order; the messages passed to \<open>toast.success\<close>, in order; and the dependency list
  \<open>[currentPage, limitPerPage]\<close> of the memoised \<open>loadTransactions\<close> for which the
  effect of lines 92-94 last ran (\<open>None\<close> before the component is mounted).
\<close>

record 'd World = "'d Dashboard" +
  requests :: "request list"
  toasts :: "string list"
  effectDeps :: "(int \<times> int) option"

definition limitPerPage :: int where
  "limitPerPage = 5"

definition initialWorld :: "'d World" where
  "initialWorld =
     \<lparr> transactions = [],
       balance = \<lparr> income = None, outcome = None, total_field = None \<rparr>,
       currentPage = 1,
       modalIsOpen = False,
       editingTransaction = None,
       totalTransactions = 0,
       loadingCards = False,
       requests = [],
       toasts = [],
       effectDeps = None \<rparr>"

section \<open>Template literals\<close>

text \<open>
  \<open>`${n}`\<close> for an integral JavaScript number \<open>n\<close>: its decimal digits, with a
  leading minus sign below zero. Page numbers and the page size are integral.
\<close>

definition digit :: "nat \<Rightarrow> char" where
  "digit n = ''0123456789'' ! (n mod 10)"

fun decimal :: "nat \<Rightarrow> string" where
  "decimal n = (if n < 10 then [digit n] else decimal (n div 10) @ [digit (n mod 10)])"

declare decimal.simps [simp del]

definition numberToString :: "int \<Rightarrow> string" where
  "numberToString n = (if n < 0 then ''-'' @ decimal (nat (- n)) else decimal (nat n))"

section \<open>Derived values\<close>

text \<open>
  Lines 99-102, the title of a row:
  \<open>title.length <= 15 ? title : title.substr(0, 15).concat('...')\<close>.
\<close>

definition displayTitle :: "string \<Rightarrow> string" where
  "displayTitle t = (if length t \<le> 15 then t else take 15 t @ ''...'')"

text \<open>
  Lines 96-106. The formatter utilities \<open>formatValue\<close> and \<open>formatDate\<close> and the
  conversion \<open>Number\<close> are parameters; \<open>'n\<close> is the type of JavaScript numbers.
\<close>

definition transactionsList ::
  "('n \<Rightarrow> string) \<Rightarrow> (string option \<Rightarrow> 'n) \<Rightarrow> ('d \<Rightarrow> string) \<Rightarrow>
   'd Transaction list \<Rightarrow> 'd Transaction list" where
  "transactionsList formatValue Number formatDate txs =
     map (\<lambda>transaction. transaction
            \<lparr> title := displayTitle (title transaction),
              formattedValue := formatValue (Number (Some (value_field transaction))),
              formattedDate := formatDate (created_at transaction) \<rparr>) txs"




section \<open>Handlers\<close>

text \<open>Lines 66-73.\<close>

definition openModal :: "'d Transaction \<Rightarrow> 'd World \<Rightarrow> 'd World" where
  "openModal transaction w = w\<lparr> editingTransaction := Some transaction, modalIsOpen := True \<rparr>"

definition closeModal :: "'d World \<Rightarrow> 'd World" where
  "closeModal w = w\<lparr> modalIsOpen := False \<rparr>"

text \<open>Line 78, \<open>`/transactions?page=${currentPage}&limit=${limitPerPage}`\<close>.\<close>

definition transactionsUrl :: "int \<Rightarrow> int \<Rightarrow> string" where
  "transactionsUrl page limit =
     ''/transactions?page='' @ numberToString page @ ''&limit='' @ numberToString limit"

text \<open>
  Lines 75-90, \<open>loadTransactions\<close>. The function is asynchronous and suspends once, at
  \<open>await api.get\<close>. \<open>loadTransactions_call\<close> is the part that runs when it is called:
  lines 76-79, up to the issue of the request. Its argument \<open>page\<close> is the value of
  \<open>currentPage\<close> that the closure captured (the dependency of \<open>useCallback\<close>).
  \<open>loadTransactions_resume\<close> is the part that runs when the promise of \<open>api.get\<close>
  settles: on a rejection the \<open>await\<close> throws, nothing in the function catches it,
  and the promise of \<open>loadTransactions\<close> is rejected with lines 80-89 not run; on
  fulfilment lines 80-89 run. The first component of the result is the outcome of the
  promise that \<open>loadTransactions\<close> returned.
\<close>

definition loadTransactions_call :: "int \<Rightarrow> 'd World \<Rightarrow> 'd World" where
  "loadTransactions_call page w =
     w\<lparr> loadingCards := True,
        requests := requests w @ [GET (transactionsUrl page limitPerPage)] \<rparr>"

definition loadTransactions_resume ::
  "error + 'd ResponseData \<Rightarrow> 'd World \<Rightarrow> (error + unit) \<times> 'd World" where
  "loadTransactions_resume response w =
     (case response of
        Inl e \<Rightarrow> (Inl e, w)
      | Inr d \<Rightarrow>
          (Inr (),
           w\<lparr> transactions := data_transactions d,
              balance := \<lparr> income = income (data_balance d),
                           outcome = outcome (data_balance d),
                           total_field = total_field (data_balance d) \<rparr>,
              totalTransactions := data_totalTransactions d,
              loadingCards := False \<rparr>))"

text \<open>
  The whole of \<open>loadTransactions\<close> when nothing else happens while the request is
  outstanding; \<open>api_get\<close> gives the outcome of the request for a URL.
\<close>

definition loadTransactions ::
  "(string \<Rightarrow> error + 'd ResponseData) \<Rightarrow> int \<Rightarrow> 'd World \<Rightarrow> (error + unit) \<times> 'd World" where
  "loadTransactions api_get page w =
     loadTransactions_resume (api_get (transactionsUrl page limitPerPage))
       (loadTransactions_call page w)"

text \<open>
  Lines 92-94 with the dependency list of line 90. React keeps the identity of the
  memoised \<open>loadTransactions\<close> while \<open>[currentPage, limitPerPage]\<close> is unchanged, and
  after a render it runs an effect on mount and whenever one of the effect's
  dependencies, here \<open>loadTransactions\<close>, has changed. The effect calls the
  \<open>loadTransactions\<close> of the render it belongs to and drops the promise.
\<close>

definition renderEffects :: "'d World \<Rightarrow> 'd World" where
  "renderEffects w =
     (let deps = (currentPage w, limitPerPage)
      in if effectDeps w = Some deps then w
         else loadTransactions_call (currentPage w) (w\<lparr> effectDeps := Some deps \<rparr>))"

text \<open>Lines 120-122.\<close>

definition handleChangePage :: "int \<Rightarrow> 'd World \<Rightarrow> 'd World" where
  "handleChangePage prevOrNext w = w\<lparr> currentPage := prevOrNext \<rparr>"

text \<open>
  A change of page as the user makes it: the pagination control calls
  \<open>handleChangePage\<close>, the component renders again and its effects run.
\<close>

definition changePage :: "int \<Rightarrow> 'd World \<Rightarrow> 'd World" where
  "changePage newPage w = renderEffects (handleChangePage newPage w)"

text \<open>
  The promise of an outstanding \<open>api.get\<close> settles: \<open>loadTransactions\<close> resumes, its
  own promise is dropped, and the component renders again with its effects.
\<close>

definition fetchSettled :: "error + 'd ResponseData \<Rightarrow> 'd World \<Rightarrow> 'd World" where
  "fetchSettled response w = renderEffects (snd (loadTransactions_resume response w))"

text \<open>Line 126, \<open>`transactions/${id}`\<close>, and the message of line 127.\<close>

definition deleteUrl :: "string \<Rightarrow> string" where
  "deleteUrl tid = ''transactions/'' @ tid"

definition successMessage :: string where
  "successMessage = ''Transa'' @ [CHR 0xE7, CHR 0xE3] @ ''o removida com sucesso!''"

text \<open>
  Lines 124-134, \<open>handleDeleteTransaction\<close>, split at \<open>await api.delete\<close> like
  \<open>loadTransactions\<close>. \<open>captured\<close> is the value of \<open>transactions\<close> that the closure
  captured (the dependency of \<open>useCallback\<close>): line 128 filters that list, not the list
  held when the request settles.
\<close>

definition handleDeleteTransaction_call :: "string \<Rightarrow> 'd World \<Rightarrow> 'd World" where
  "handleDeleteTransaction_call tid w = w\<lparr> requests := requests w @ [DELETE (deleteUrl tid)] \<rparr>"

definition handleDeleteTransaction_resume ::
  "'d Transaction list \<Rightarrow> string \<Rightarrow> error + unit \<Rightarrow> 'd World \<Rightarrow> (error + unit) \<times> 'd World" where
  "handleDeleteTransaction_resume captured tid response w =
     (case response of
        Inl e \<Rightarrow> (Inl e, w)
      | Inr u \<Rightarrow>
          (Inr (),
           w\<lparr> toasts := toasts w @ [successMessage],
              transactions :=
                filter (\<lambda>transaction. id_field transaction \<noteq> tid) captured \<rparr>))"

text \<open>
  The whole of \<open>handleDeleteTransaction\<close> when nothing else happens while the request
  is outstanding: the handler of the last render is the one clicked, so the captured
  list is the list held at the click.
\<close>

definition handleDeleteTransaction ::
  "(string \<Rightarrow> error + unit) \<Rightarrow> string \<Rightarrow> 'd World \<Rightarrow> (error + unit) \<times> 'd World" where
  "handleDeleteTransaction api_delete tid w =
     handleDeleteTransaction_resume (transactions w) tid (api_delete (deleteUrl tid))
       (handleDeleteTransaction_call tid w)"

section \<open>The balance cards\<close>






section \<open>Sample collaborators and data\<close>

text \<open>
  Modelled from the spec: \<open>utils/formatValue\<close> and \<open>utils/formatDate\<close> are not among
  the sources. The spec gives their contract only: pure functions to strings, the
  currency formatter "producing a sentinel string for non-numeric input". The samples
  below are such formatters, over numbers that are a natural number or not a number
  (\<open>None\<close>); they serve the concrete instances of the theorems and nothing else.
  \<open>sampleNumber\<close> stands for \<open>Number\<close> on \<open>undefined\<close> and on strings of decimal
  digits only. \<open>sampleFormatValue\<close> separates the currency sign from the amount by the
  no-break space U+00A0, so its sentinel is the string that lines 149, 162 and 175
  compare with; \<open>plainFormatValue\<close> separates them by the ordinary space U+0020.
\<close>

fun parseDigits :: "nat \<Rightarrow> string \<Rightarrow> nat option" where
  "parseDigits acc [] = Some acc"
| "parseDigits acc (c # cs) =
     (if c \<in> set ''0123456789'' then parseDigits (10 * acc + (of_char c - 48)) cs else None)"

definition sampleNumber :: "string option \<Rightarrow> nat option" where
  "sampleNumber v = (case v of None \<Rightarrow> None | Some s \<Rightarrow> parseDigits 0 s)"

definition sampleFormatValue :: "nat option \<Rightarrow> string" where
  "sampleFormatValue n =
     (case n of None \<Rightarrow> ''R$'' @ [CHR 0xA0] @ ''NaN''
              | Some k \<Rightarrow> ''R$'' @ [CHR 0xA0] @ decimal k)"


definition sampleFormatDate :: "nat \<Rightarrow> string" where
  "sampleFormatDate d = decimal d"

definition sampleTransaction :: "string \<Rightarrow> string \<Rightarrow> nat Transaction" where
  "sampleTransaction tid t =
     \<lparr> id_field = tid, title = t, value_field = ''1500'', formattedValue = [],
       formattedDate = [], type_field = Outcome,
       category = \<lparr> category_title = ''Bills'' \<rparr>, created_at = 7 \<rparr>"

definition sampleTransactions :: "nat Transaction list" where
  "sampleTransactions =
     [sampleTransaction ''a1'' ''Monthly Subscription Payment'',
      sampleTransaction ''b2'' ''Salary'']"

definition sampleData :: "nat ResponseData" where
  "sampleData =
     \<lparr> data_transactions = sampleTransactions,
       data_balance = \<lparr> income = Some ''4000'', outcome = Some ''1500'',
                        total_field = Some ''2500'' \<rparr>,
       data_totalTransactions = 2 \<rparr>"

definition otherData :: "nat ResponseData" where
  "otherData =
     \<lparr> data_transactions = [sampleTransaction ''c3'' ''Rent''],
       data_balance = \<lparr> income = Some ''10'', outcome = Some ''20'',
                        total_field = Some ''30'' \<rparr>,
       data_totalTransactions = 11 \<rparr>"

text \<open>The component once mounted: the first effect has issued the fetch of page 1.\<close>

definition mountedWorld :: "nat World" where
  "mountedWorld = renderEffects initialWorld"

text \<open>The component after that fetch has been answered with \<open>sampleData\<close>.\<close>

definition loadedWorld :: "nat World" where
  "loadedWorld = snd (loadTransactions_resume (Inr sampleData) mountedWorld)"

section \<open>Title truncation\<close>

lemma displayTitle_short: "length t \<le> 15 \<Longrightarrow> displayTitle t = t"
  by (simp add: displayTitle_def)

lemma displayTitle_long: "15 < length t \<Longrightarrow> displayTitle t = take 15 t @ ''...''"
  by (simp add: displayTitle_def)

text \<open>
  Claim C9. The title decoration is idempotent: decorating a decorated title gives the
  decorated title again, for every string.
\<close>

theorem displayTitle_idempotent: "displayTitle (displayTitle t) = displayTitle t"
proof (cases "length t \<le> 15")
  case True
  then show ?thesis by (simp add: displayTitle_short)
next
  case False
  then have long: "15 < length t" by simp
  have "displayTitle (take 15 t @ ''...'') = take 15 (take 15 t @ ''...'') @ ''...''"
    using long by (simp add: displayTitle_def)
  also have "\<dots> = take 15 t @ ''...''"
    using long by simp
  finally show ?thesis
    using long by (simp add: displayTitle_long)
qed

section \<open>Facts about the template literals and the effect\<close>

lemma numberToString_5: "numberToString 5 = ''5''"
  by (simp add: numberToString_def decimal.simps digit_def)

lemma transactionsUrl_limit:
  "transactionsUrl page limitPerPage = ''/transactions?page='' @ numberToString page @ ''&limit=5''"
  by (simp add: transactionsUrl_def limitPerPage_def numberToString_5)

lemma renderEffects_settled:
  "effectDeps w = Some (currentPage w, limitPerPage) \<Longrightarrow> renderEffects w = w"
  by (simp add: renderEffects_def Let_def)

lemma effectDeps_renderEffects:
  "effectDeps (renderEffects w) = Some (currentPage (renderEffects w), limitPerPage)"
  by (simp add: renderEffects_def loadTransactions_call_def Let_def)

lemma renderEffects_idem: "renderEffects (renderEffects w) = renderEffects w"
  by (rule renderEffects_settled) (rule effectDeps_renderEffects)

lemma loadTransactions_resume_deps:
  "effectDeps (snd (loadTransactions_resume r w)) = effectDeps w \<and>
   currentPage (snd (loadTransactions_resume r w)) = currentPage w \<and>
   requests (snd (loadTransactions_resume r w)) = requests w \<and>
   toasts (snd (loadTransactions_resume r w)) = toasts w"
  by (cases r) (simp_all add: loadTransactions_resume_def)

lemma fetchSettled_eq:
  "effectDeps w = Some (currentPage w, limitPerPage) \<Longrightarrow>
   fetchSettled r w = snd (loadTransactions_resume r w)"
  unfolding fetchSettled_def
  by (rule renderEffects_settled) (simp add: loadTransactions_resume_deps)

lemma changePage_fires:
  "effectDeps w = Some (currentPage w, limitPerPage) \<Longrightarrow> q \<noteq> currentPage w \<Longrightarrow>
   changePage q w =
     w\<lparr> currentPage := q, effectDeps := Some (q, limitPerPage), loadingCards := True,
        requests := requests w @ [GET (transactionsUrl q limitPerPage)] \<rparr>"
  by (simp add: changePage_def handleChangePage_def renderEffects_def loadTransactions_call_def Let_def)

text \<open>
  The sample component after its first fetch, written out: page 1 is shown, nothing is
  outstanding, and the effect has run for \<open>[1, 5]\<close>.
\<close>

lemma loadedWorld_eq:
  "loadedWorld =
     \<lparr> transactions = sampleTransactions,
       balance = \<lparr> income = Some ''4000'', outcome = Some ''1500'', total_field = Some ''2500'' \<rparr>,
       currentPage = 1, modalIsOpen = False, editingTransaction = None,
       totalTransactions = 2, loadingCards = False,
       requests = [GET ''/transactions?page=1&limit=5''], toasts = [],
       effectDeps = Some (1, 5) \<rparr>"
  by (simp add: loadedWorld_def mountedWorld_def initialWorld_def renderEffects_def Let_def
      loadTransactions_call_def loadTransactions_resume_def sampleData_def
      transactionsUrl_def numberToString_def decimal.simps digit_def limitPerPage_def)

section \<open>The loading gate of the cards\<close>




section \<open>Deleting a transaction\<close>

text \<open>
  Claim C2. When the remote delete of \<open>tid\<close> succeeds, no transaction with that id is
  in the local list afterwards (the list is the captured list filtered by identity), and
  \<open>toast.success\<close> has been called exactly once more. The first two conjuncts hold for
  any captured list; the rest is the whole handler with nothing interleaved.
\<close>

theorem delete_success:
  "tid \<notin> id_field ` set (transactions (snd (handleDeleteTransaction_resume captured tid (Inr ()) w))) \<and>
   toasts (snd (handleDeleteTransaction_resume captured tid (Inr ()) w))
     = toasts w @ [successMessage] \<and>
   (api_delete (deleteUrl tid) = Inr () \<longrightarrow>
      fst (handleDeleteTransaction api_delete tid w) = Inr () \<and>
      transactions (snd (handleDeleteTransaction api_delete tid w))
        = filter (\<lambda>transaction. id_field transaction \<noteq> tid) (transactions w) \<and>
      (\<forall>transaction \<in> set (transactions (snd (handleDeleteTransaction api_delete tid w))).
         id_field transaction \<noteq> tid) \<and>
      toasts (snd (handleDeleteTransaction api_delete tid w)) = toasts w @ [successMessage])"
  by (auto simp add: handleDeleteTransaction_def handleDeleteTransaction_resume_def
      handleDeleteTransaction_call_def)

theorem delete_success_witness:
  "(\<lambda>url. Inr ()) (deleteUrl ''a1'') = (Inr () :: error + unit) \<and>
   map id_field (transactions loadedWorld) = [''a1'', ''b2''] \<and>
   map id_field (transactions (snd (handleDeleteTransaction (\<lambda>url. Inr ()) ''a1'' loadedWorld)))
     = [''b2''] \<and>
   toasts loadedWorld = [] \<and>
   toasts (snd (handleDeleteTransaction (\<lambda>url. Inr ()) ''a1'' loadedWorld)) = [successMessage]"
  using delete_success [of "''a1''" "transactions loadedWorld" loadedWorld "\<lambda>url. Inr ()"]
  by (simp add: loadedWorld_def mountedWorld_def initialWorld_def renderEffects_def
      loadTransactions_call_def loadTransactions_resume_def sampleData_def Let_def sampleTransactions_def
      sampleTransaction_def)

text \<open>
  Claim C3. Deleting changes the transaction list only, besides the request log and the
  notifications: the balance, \<open>totalTransactions\<close> and the page cursor are what they
  were, whether the remote delete succeeds or fails; the only request issued is the
  \<open>DELETE\<close>, and the render that follows does not run the effect, so nothing is
  fetched again.
\<close>

theorem delete_frame:
  "balance (snd (handleDeleteTransaction_resume captured tid response w)) = balance w \<and>
   totalTransactions (snd (handleDeleteTransaction_resume captured tid response w))
     = totalTransactions w \<and>
   currentPage (snd (handleDeleteTransaction_resume captured tid response w)) = currentPage w \<and>
   requests (snd (handleDeleteTransaction_resume captured tid response w)) = requests w \<and>
   balance (snd (handleDeleteTransaction api_delete tid w)) = balance w \<and>
   totalTransactions (snd (handleDeleteTransaction api_delete tid w)) = totalTransactions w \<and>
   currentPage (snd (handleDeleteTransaction api_delete tid w)) = currentPage w \<and>
   requests (snd (handleDeleteTransaction api_delete tid w)) = requests w @ [DELETE (deleteUrl tid)] \<and>
   (snd (handleDeleteTransaction api_delete tid w))
     \<lparr> transactions := transactions w, requests := requests w, toasts := toasts w \<rparr> = w \<and>
   (effectDeps w = Some (currentPage w, limitPerPage) \<longrightarrow>
      renderEffects (snd (handleDeleteTransaction api_delete tid w))
        = snd (handleDeleteTransaction api_delete tid w))"
  by (cases response; cases "api_delete (deleteUrl tid)")
     (simp_all add: handleDeleteTransaction_def handleDeleteTransaction_resume_def
        handleDeleteTransaction_call_def renderEffects_def Let_def)

theorem delete_frame_witness:
  "effectDeps loadedWorld = Some (currentPage loadedWorld, limitPerPage) \<and>
   balance (snd (handleDeleteTransaction (\<lambda>url. Inr ()) ''a1'' loadedWorld))
     = \<lparr> income = Some ''4000'', outcome = Some ''1500'', total_field = Some ''2500'' \<rparr> \<and>
   totalTransactions (snd (handleDeleteTransaction (\<lambda>url. Inr ()) ''a1'' loadedWorld)) = 2 \<and>
   length (transactions (snd (handleDeleteTransaction (\<lambda>url. Inr ()) ''a1'' loadedWorld))) = 1 \<and>
   currentPage (snd (handleDeleteTransaction (\<lambda>url. Inr ()) ''a1'' loadedWorld)) = 1 \<and>
   requests (renderEffects (snd (handleDeleteTransaction (\<lambda>url. Inr ()) ''a1'' loadedWorld)))
     = [GET ''/transactions?page=1&limit=5'', DELETE ''transactions/a1'']"
  using delete_frame [of "transactions loadedWorld" "''a1''" "Inr ()" loadedWorld "\<lambda>url. Inr ()"]
  by (simp add: loadedWorld_eq limitPerPage_def deleteUrl_def handleDeleteTransaction_def
      handleDeleteTransaction_resume_def handleDeleteTransaction_call_def
      sampleTransactions_def sampleTransaction_def)

text \<open>
  Claim C6. When the remote delete fails, the handler stops at the \<open>await\<close>: the
  local list and the notifications are what they were and the rejection is passed on.
  Issuing the request changes neither, so nothing was removed before the outcome is known.
\<close>

theorem delete_failure:
  "handleDeleteTransaction_resume captured tid (Inl e) w = (Inl e, w) \<and>
   transactions (handleDeleteTransaction_call tid w) = transactions w \<and>
   toasts (handleDeleteTransaction_call tid w) = toasts w \<and>
   (api_delete (deleteUrl tid) = Inl e \<longrightarrow>
      handleDeleteTransaction api_delete tid w
        = (Inl e, w\<lparr> requests := requests w @ [DELETE (deleteUrl tid)] \<rparr>) \<and>
      transactions (snd (handleDeleteTransaction api_delete tid w)) = transactions w \<and>
      toasts (snd (handleDeleteTransaction api_delete tid w)) = toasts w)"
  by (simp add: handleDeleteTransaction_def handleDeleteTransaction_resume_def
      handleDeleteTransaction_call_def)

theorem delete_failure_witness:
  "(\<lambda>url. Inl RequestFailed) (deleteUrl ''a1'') = (Inl RequestFailed :: error + unit) \<and>
   fst (handleDeleteTransaction (\<lambda>url. Inl RequestFailed) ''a1'' loadedWorld) = Inl RequestFailed \<and>
   transactions (snd (handleDeleteTransaction (\<lambda>url. Inl RequestFailed) ''a1'' loadedWorld))
     = sampleTransactions \<and>
   toasts (snd (handleDeleteTransaction (\<lambda>url. Inl RequestFailed) ''a1'' loadedWorld)) = []"
  using delete_failure [of "transactions loadedWorld" "''a1''" RequestFailed loadedWorld
      "\<lambda>url. Inl RequestFailed"]
  by (simp add: loadedWorld_eq)

section \<open>Reloading\<close>

text \<open>
  Claim C4. \<open>loadTransactions\<close> sets the busy flag, issues
  \<open>GET /transactions?page=<currentPage>&limit=5\<close> and touches nothing else before the
  response; on success it replaces the list, the balance and the total count by those of
  the response and clears the busy flag.
\<close>

theorem loadTransactions_success:
  "loadingCards (loadTransactions_call (currentPage w) w) = True \<and>
   requests (loadTransactions_call (currentPage w) w)
     = requests w @ [GET (''/transactions?page='' @ numberToString (currentPage w) @ ''&limit=5'')] \<and>
   transactions (loadTransactions_call (currentPage w) w) = transactions w \<and>
   balance (loadTransactions_call (currentPage w) w) = balance w \<and>
   totalTransactions (loadTransactions_call (currentPage w) w) = totalTransactions w \<and>
   (api_get (transactionsUrl (currentPage w) limitPerPage) = Inr d \<longrightarrow>
      loadTransactions api_get (currentPage w) w =
        (Inr (),
         w\<lparr> transactions := data_transactions d,
            balance := data_balance d,
            totalTransactions := data_totalTransactions d,
            loadingCards := False,
            requests := requests w @
              [GET (''/transactions?page='' @ numberToString (currentPage w) @ ''&limit=5'')] \<rparr>))"
  by (simp add: loadTransactions_def loadTransactions_call_def loadTransactions_resume_def
      transactionsUrl_limit)

theorem loadTransactions_success_witness:
  "(\<lambda>url. if url = ''/transactions?page=1&limit=5'' then Inr sampleData else Inl RequestFailed)
     (transactionsUrl (currentPage (initialWorld :: nat World)) limitPerPage) = Inr sampleData \<and>
   loadTransactions
     (\<lambda>url. if url = ''/transactions?page=1&limit=5'' then Inr sampleData else Inl RequestFailed)
     (currentPage (initialWorld :: nat World)) initialWorld
   = (Inr (),
      \<lparr> transactions = sampleTransactions,
        balance = \<lparr> income = Some ''4000'', outcome = Some ''1500'', total_field = Some ''2500'' \<rparr>,
        currentPage = 1, modalIsOpen = False, editingTransaction = None,
        totalTransactions = 2, loadingCards = False,
        requests = [GET ''/transactions?page=1&limit=5''], toasts = [],
        effectDeps = None \<rparr>)"
  using loadTransactions_success [of "initialWorld :: nat World"
      "\<lambda>url. if url = ''/transactions?page=1&limit=5'' then Inr sampleData else Inl RequestFailed"
      sampleData]
  by (simp add: initialWorld_def sampleData_def transactionsUrl_def numberToString_def
      decimal.simps digit_def limitPerPage_def)

text \<open>
  Claim C7. When the fetch fails, \<open>loadTransactions\<close> stops at the \<open>await\<close> and
  passes the rejection on: the busy flag stays set, and the list, the balance and the
  total count are what they were. The render that follows a rejected fetch changes
  nothing either, so nothing retries the fetch or clears the flag.
\<close>

theorem loadTransactions_failure:
  "loadTransactions_resume (Inl e) w = (Inl e, w) \<and>
   fetchSettled (Inl e) (renderEffects w) = renderEffects w \<and>
   (api_get (transactionsUrl page limitPerPage) = Inl e \<longrightarrow>
      loadTransactions api_get page w
        = (Inl e, w\<lparr> loadingCards := True,
                      requests := requests w @ [GET (transactionsUrl page limitPerPage)] \<rparr>) \<and>
      loadingCards (snd (loadTransactions api_get page w)) = True \<and>
      transactions (snd (loadTransactions api_get page w)) = transactions w \<and>
      balance (snd (loadTransactions api_get page w)) = balance w \<and>
      totalTransactions (snd (loadTransactions api_get page w)) = totalTransactions w)"
  by (simp add: loadTransactions_def loadTransactions_call_def loadTransactions_resume_def
      fetchSettled_def renderEffects_idem)

theorem loadTransactions_failure_witness:
  "(\<lambda>url. Inl RequestFailed) (transactionsUrl 1 limitPerPage)
     = (Inl RequestFailed :: error + nat ResponseData) \<and>
   loadingCards loadedWorld = False \<and>
   fst (loadTransactions (\<lambda>url. Inl RequestFailed) 1 loadedWorld) = Inl RequestFailed \<and>
   loadingCards (snd (loadTransactions (\<lambda>url. Inl RequestFailed) 1 loadedWorld)) = True \<and>
   transactions (snd (loadTransactions (\<lambda>url. Inl RequestFailed) 1 loadedWorld))
     = sampleTransactions \<and>
   totalTransactions (snd (loadTransactions (\<lambda>url. Inl RequestFailed) 1 loadedWorld)) = 2"
  using loadTransactions_failure [of RequestFailed loadedWorld "\<lambda>url. Inl RequestFailed" 1]
  by (simp add: loadedWorld_eq)

section \<open>The decorated list\<close>

text \<open>
  Claim C5. The decorated list has one row per transaction, in order. The title of a
  row is the first 15 characters of the source title followed by \<open>...\<close>, 18 characters
  in all, when the source title is longer than 15 characters, and the source title
  itself otherwise.
\<close>

theorem transactionsList_titles:
  "length (transactionsList formatValue Number formatDate txs) = length txs \<and>
   (\<forall>i < length txs.
      title (transactionsList formatValue Number formatDate txs ! i) =
        (if 15 < length (title (txs ! i)) then take 15 (title (txs ! i)) @ ''...''
         else title (txs ! i)) \<and>
      (15 < length (title (txs ! i)) \<longrightarrow>
         length (title (transactionsList formatValue Number formatDate txs ! i)) = 18))"
  by (simp add: transactionsList_def displayTitle_def)

theorem transactionsList_titles_witness:
  "(0::nat) < length sampleTransactions \<and> 15 < length (title (sampleTransactions ! 0)) \<and>
   title (transactionsList sampleFormatValue sampleNumber sampleFormatDate sampleTransactions ! 0)
     = ''Monthly Subscri...'' \<and>
   length (title (transactionsList sampleFormatValue sampleNumber sampleFormatDate
                    sampleTransactions ! 0)) = 18 \<and>
   (1::nat) < length sampleTransactions \<and> \<not> 15 < length (title (sampleTransactions ! 1)) \<and>
   title (transactionsList sampleFormatValue sampleNumber sampleFormatDate sampleTransactions ! 1)
     = ''Salary''"
  using transactionsList_titles [of sampleFormatValue sampleNumber sampleFormatDate sampleTransactions]
  by (simp add: sampleTransactions_def sampleTransaction_def)

section \<open>Changing the page\<close>

text \<open>
  Claim C8. \<open>handleChangePage\<close> stores its argument as the page cursor, whatever it is
  and whatever \<open>totalTransactions\<close> is. When the component is settled on page
  \<open>currentPage w\<close> and the new page \<open>q\<close> differs, exactly one request is added to the
  log, the fetch of page \<open>q\<close>, and the settling of that fetch adds none.
\<close>

theorem changePage_one_fetch:
  "handleChangePage q w = w\<lparr> currentPage := q \<rparr> \<and>
   currentPage (changePage q w) = q \<and>
   (effectDeps w = Some (currentPage w, limitPerPage) \<and> currentPage w \<noteq> q \<longrightarrow>
      requests (changePage q w)
        = requests w @ [GET (''/transactions?page='' @ numberToString q @ ''&limit=5'')] \<and>
      requests (fetchSettled response (changePage q w))
        = requests w @ [GET (''/transactions?page='' @ numberToString q @ ''&limit=5'')])"
proof -
  have a: "handleChangePage q w = w\<lparr> currentPage := q \<rparr>"
    by (simp add: handleChangePage_def)
  have b: "currentPage (changePage q w) = q"
    by (simp add: changePage_def handleChangePage_def renderEffects_def Let_def
        loadTransactions_call_def)
  have c: "requests (changePage q w)
             = requests w @ [GET (''/transactions?page='' @ numberToString q @ ''&limit=5'')] \<and>
           requests (fetchSettled response (changePage q w))
             = requests w @ [GET (''/transactions?page='' @ numberToString q @ ''&limit=5'')]"
    if settled: "effectDeps w = Some (currentPage w, limitPerPage)" and moved: "currentPage w \<noteq> q"
  proof -
    have fired: "requests (changePage q w) = requests w @ [GET (transactionsUrl q limitPerPage)]"
      using settled moved by (simp add: changePage_fires)
    have "effectDeps (changePage q w) = Some (currentPage (changePage q w), limitPerPage)"
      unfolding changePage_def by (rule effectDeps_renderEffects)
    then have "fetchSettled response (changePage q w)
                 = snd (loadTransactions_resume response (changePage q w))"
      by (rule fetchSettled_eq)
    then have "requests (fetchSettled response (changePage q w)) = requests (changePage q w)"
      by (simp add: loadTransactions_resume_deps)
    with fired show ?thesis
      by (simp add: transactionsUrl_limit)
  qed
  from a b c show ?thesis by blast
qed

theorem changePage_one_fetch_witness:
  "effectDeps loadedWorld = Some (currentPage loadedWorld, limitPerPage) \<and>
   currentPage loadedWorld \<noteq> 99 \<and> totalTransactions loadedWorld = 2 \<and>
   currentPage (changePage 99 loadedWorld) = 99 \<and>
   requests loadedWorld = [GET ''/transactions?page=1&limit=5''] \<and>
   requests (changePage 99 loadedWorld)
     = [GET ''/transactions?page=1&limit=5'', GET ''/transactions?page=99&limit=5''] \<and>
   requests (fetchSettled (Inr otherData) (changePage 99 loadedWorld))
     = [GET ''/transactions?page=1&limit=5'', GET ''/transactions?page=99&limit=5'']"
  using changePage_one_fetch [of 99 loadedWorld "Inr otherData"]
  by (simp add: loadedWorld_eq limitPerPage_def numberToString_def decimal.simps digit_def)

text \<open>
  Claim C10. Two changes of page in a row, each to a page other than the one before,
  issue two fetches. When both responses arrive, in either order, the list, the balance
  and the total count are those of the response that arrived last, and the page cursor is
  the second page in both cases.
\<close>

theorem overlapping_reloads:
  "effectDeps w = Some (currentPage w, limitPerPage) \<and> q1 \<noteq> currentPage w \<and> q2 \<noteq> q1 \<longrightarrow>
   requests (changePage q2 (changePage q1 w))
     = requests w @ [GET (transactionsUrl q1 limitPerPage), GET (transactionsUrl q2 limitPerPage)] \<and>
   fetchSettled (Inr d2) (fetchSettled (Inr d1) (changePage q2 (changePage q1 w)))
     = (changePage q2 (changePage q1 w))
         \<lparr> transactions := data_transactions d2, balance := data_balance d2,
           totalTransactions := data_totalTransactions d2, loadingCards := False \<rparr> \<and>
   fetchSettled (Inr d1) (fetchSettled (Inr d2) (changePage q2 (changePage q1 w)))
     = (changePage q2 (changePage q1 w))
         \<lparr> transactions := data_transactions d1, balance := data_balance d1,
           totalTransactions := data_totalTransactions d1, loadingCards := False \<rparr> \<and>
   currentPage (changePage q2 (changePage q1 w)) = q2"
proof (intro impI, elim conjE)
  assume settled: "effectDeps w = Some (currentPage w, limitPerPage)"
    and m1: "q1 \<noteq> currentPage w" and m2: "q2 \<noteq> q1"
  let ?w1 = "changePage q1 w"
  let ?w2 = "changePage q2 ?w1"
  have w1: "?w1 = w\<lparr> currentPage := q1, effectDeps := Some (q1, limitPerPage),
                      loadingCards := True,
                      requests := requests w @ [GET (transactionsUrl q1 limitPerPage)] \<rparr>"
    using settled m1 by (rule changePage_fires)
  have s1: "effectDeps ?w1 = Some (currentPage ?w1, limitPerPage)"
    unfolding changePage_def by (rule effectDeps_renderEffects)
  have p1: "currentPage ?w1 = q1"
    by (simp add: w1)
  have w2: "?w2 = ?w1\<lparr> currentPage := q2, effectDeps := Some (q2, limitPerPage),
                        loadingCards := True,
                        requests := requests ?w1 @ [GET (transactionsUrl q2 limitPerPage)] \<rparr>"
    using s1 m2 by (simp add: changePage_fires p1)
  have s2: "effectDeps ?w2 = Some (currentPage ?w2, limitPerPage)"
    unfolding changePage_def [of q2] by (rule effectDeps_renderEffects)
  have settle: "fetchSettled (Inr d) v
          = v\<lparr> transactions := data_transactions d, balance := data_balance d,
               totalTransactions := data_totalTransactions d, loadingCards := False \<rparr>"
    if "effectDeps v = Some (currentPage v, limitPerPage)" for d :: "'a ResponseData" and v
    using that by (simp add: fetchSettled_eq loadTransactions_resume_def)
  have reqs: "requests ?w2
      = requests w @ [GET (transactionsUrl q1 limitPerPage), GET (transactionsUrl q2 limitPerPage)]"
    by (simp add: w2) (simp add: w1)
  have twice: "fetchSettled (Inr b) (fetchSettled (Inr a) ?w2)
          = ?w2\<lparr> transactions := data_transactions b, balance := data_balance b,
                 totalTransactions := data_totalTransactions b, loadingCards := False \<rparr>"
    for a b :: "'a ResponseData"
  proof -
    have first: "fetchSettled (Inr a) ?w2
          = ?w2\<lparr> transactions := data_transactions a, balance := data_balance a,
                 totalTransactions := data_totalTransactions a, loadingCards := False \<rparr>"
      using s2 by (rule settle)
    have "effectDeps (fetchSettled (Inr a) ?w2)
            = Some (currentPage (fetchSettled (Inr a) ?w2), limitPerPage)"
      unfolding fetchSettled_def by (rule effectDeps_renderEffects)
    then have "fetchSettled (Inr b) (fetchSettled (Inr a) ?w2)
          = (fetchSettled (Inr a) ?w2)
              \<lparr> transactions := data_transactions b, balance := data_balance b,
                totalTransactions := data_totalTransactions b, loadingCards := False \<rparr>"
      by (rule settle)
    then show ?thesis by (simp add: first)
  qed
  have page: "currentPage ?w2 = q2"
    by (simp add: w2)
  from reqs twice [of d1 d2] twice [of d2 d1] page
  show "requests ?w2
     = requests w @ [GET (transactionsUrl q1 limitPerPage), GET (transactionsUrl q2 limitPerPage)] \<and>
   fetchSettled (Inr d2) (fetchSettled (Inr d1) ?w2)
     = ?w2\<lparr> transactions := data_transactions d2, balance := data_balance d2,
           totalTransactions := data_totalTransactions d2, loadingCards := False \<rparr> \<and>
   fetchSettled (Inr d1) (fetchSettled (Inr d2) ?w2)
     = ?w2\<lparr> transactions := data_transactions d1, balance := data_balance d1,
           totalTransactions := data_totalTransactions d1, loadingCards := False \<rparr> \<and>
   currentPage ?w2 = q2"
    by blast
qed

theorem overlapping_reloads_witness:
  "effectDeps loadedWorld = Some (currentPage loadedWorld, limitPerPage) \<and>
   (2::int) \<noteq> currentPage loadedWorld \<and> (3::int) \<noteq> 2 \<and>
   requests (changePage 3 (changePage 2 loadedWorld))
     = [GET ''/transactions?page=1&limit=5'', GET ''/transactions?page=2&limit=5'',
        GET ''/transactions?page=3&limit=5''] \<and>
   currentPage (fetchSettled (Inr sampleData) (fetchSettled (Inr otherData)
       (changePage 3 (changePage 2 loadedWorld)))) = 3 \<and>
   map id_field (transactions (fetchSettled (Inr sampleData) (fetchSettled (Inr otherData)
       (changePage 3 (changePage 2 loadedWorld))))) = [''a1'', ''b2''] \<and>
   totalTransactions (fetchSettled (Inr sampleData) (fetchSettled (Inr otherData)
       (changePage 3 (changePage 2 loadedWorld)))) = 2 \<and>
   map id_field (transactions (fetchSettled (Inr otherData) (fetchSettled (Inr sampleData)
       (changePage 3 (changePage 2 loadedWorld))))) = [''c3''] \<and>
   totalTransactions (fetchSettled (Inr otherData) (fetchSettled (Inr sampleData)
       (changePage 3 (changePage 2 loadedWorld)))) = 11"
  using overlapping_reloads [of loadedWorld 2 3 otherData sampleData]
  by (simp add: loadedWorld_eq limitPerPage_def transactionsUrl_def numberToString_def
      decimal.simps digit_def sampleData_def otherData_def sampleTransactions_def
      sampleTransaction_def)

end
